theory Spec2Isabelle
  imports Complex_Main "HOL-Library.Word" "HOL-Library.Char_ord" "HOL-Library.List_Lexorder"
begin

section \<open>Values shared by the services\<close>

text \<open>
  Text whose characters the program inspects (the transcript handed to the chunker, the
  question whose blankness the query endpoint tests) is a list of Unicode code points, as
  a Python \<^verbatim>\<open>str\<close> is. Labels that are only compared, concatenated or passed on
  (company symbols, dictionary keys, status words, messages) are Isabelle strings.
  Similarity scores, thresholds and temperatures are Python floats; they are modelled as
  reals, so rounding error of the float arithmetic is outside the model.
\<close>

type_synonym pystr = "nat list"

text \<open>An exception, with the text \<^verbatim>\<open>str(e)\<close> renders.\<close>

datatype exn = Exn string

fun str_of_exn :: "exn \<Rightarrow> string" where
  "str_of_exn (Exn m) = m"

text \<open>
  A metadata value of the vector store. The program writes strings (date, company,
  filename, quarter, document id) and integers (chunk index, total chunks).
\<close>

datatype mvalue = MStr string | MInt int

type_synonym metadata = "string \<rightharpoonup> mvalue"

text \<open>\<^verbatim>\<open>d.get(key, default)\<close> on a dictionary.\<close>

definition dict_get :: "('k \<rightharpoonup> 'v) \<Rightarrow> 'k \<Rightarrow> 'v \<Rightarrow> 'v" where
  "dict_get d k dflt = (case d k of None \<Rightarrow> dflt | Some v \<Rightarrow> v)"

text \<open>
  \<^verbatim>\<open>str.strip()\<close> removes leading and trailing whitespace; the whitespace code points
  are those for which \<^verbatim>\<open>str.isspace\<close> holds.
\<close>

definition is_space :: "nat \<Rightarrow> bool" where
  "is_space c \<longleftrightarrow>
     (9 \<le> c \<and> c \<le> 13) \<or> (28 \<le> c \<and> c \<le> 32) \<or> c = 133 \<or> c = 160 \<or> c = 5760 \<or>
     (8192 \<le> c \<and> c \<le> 8202) \<or> c = 8232 \<or> c = 8233 \<or> c = 8239 \<or> c = 8287 \<or> c = 12288"

definition strip :: "pystr \<Rightarrow> pystr" where
  "strip s = rev (dropWhile is_space (rev (dropWhile is_space s)))"

section \<open>Request and response models (models/query.py, models/response.py)\<close>

datatype CompanySymbol = AAPL | AMD | AMZN | ASML | CSCO | GOOGL | INTC | MSFT | MU | NVDA

fun symbol_value :: "CompanySymbol \<Rightarrow> string" where
  "symbol_value AAPL = ''AAPL''"
| "symbol_value AMD = ''AMD''"
| "symbol_value AMZN = ''AMZN''"
| "symbol_value ASML = ''ASML''"
| "symbol_value CSCO = ''CSCO''"
| "symbol_value GOOGL = ''GOOGL''"
| "symbol_value INTC = ''INTC''"
| "symbol_value MSFT = ''MSFT''"
| "symbol_value MU = ''MU''"
| "symbol_value NVDA = ''NVDA''"

record DateRange =
  dr_start :: "string option"
  dr_end :: "string option"

record QueryRequest =
  question :: pystr
  company_filter :: "CompanySymbol list option"
  date_range :: "DateRange option"
  max_results :: int
  similarity_threshold :: "real option"
  temperature :: "real option"


record SourceDocument =
  sd_company :: string
  sd_date :: string
  sd_quarter :: "string option"
  sd_chunk :: pystr
  sd_similarity_score :: real
  sd_document_id :: string
  sd_chunk_index :: "int option"

text \<open>
  QueryMetadata without its \<^verbatim>\<open>processing_time\<close>, which is read off the wall clock.
\<close>

record QueryMetadata =
  total_chunks_searched :: nat
  model_used :: string
  llm_model :: string
  md_similarity_threshold :: real
  md_max_results :: int

record QueryResponse =
  query :: pystr
  answer :: string
  sources :: "SourceDocument list"
  metadata :: QueryMetadata

section \<open>Settings (core/config.py)\<close>

record Settings =
  EMBEDDING_MODEL :: string
  SIMILARITY_THRESHOLD :: real
  TEMPERATURE :: real

text \<open>The values the Settings class takes when the environment overrides nothing.\<close>

definition default_settings :: Settings where
  "default_settings =
     \<lparr>EMBEDDING_MODEL = ''all-MiniLM-L6-v2'', SIMILARITY_THRESHOLD = 7 / 10, TEMPERATURE = 7 / 10\<rparr>"

section \<open>The retrieved chunk (the dictionary search\_similar\_chunks builds)\<close>

record chunk =
  c_company :: string
  c_document_id :: mvalue
  c_chunk_index :: mvalue
  c_date :: mvalue
  c_quarter :: mvalue
  c_content :: pystr
  c_similarity_score :: real
  c_metadata :: metadata

record date_filter =
  df_start :: "string option"
  df_end :: "string option"

section \<open>RAG pipeline (core/rag\_pipeline.py)\<close>

text \<open>
  The pipeline reaches its collaborators through injected service objects. They are
  parameters here: the retrieval call, the generation call, the quarter extraction and the
  per-company chunk count. A call that raises returns \<open>Inl\<close>.
\<close>

record services =
  search_call :: "pystr \<Rightarrow> string list option \<Rightarrow> int \<Rightarrow> real \<Rightarrow> date_filter option \<Rightarrow> exn + chunk list"
  generate_call :: "pystr \<Rightarrow> chunk list \<Rightarrow> real \<Rightarrow> exn + string option"
  extract_quarter :: "string \<Rightarrow> string option"
  chunk_count :: "string \<Rightarrow> nat"

text \<open>The service calls a run of the pipeline makes, in order, with their arguments.\<close>

datatype call =
    Search pystr "string list option" int real "date_filter option"
  | Generate pystr "chunk list" real

text \<open>\<^verbatim>\<open>x or default\<close> on an optional float: None and 0.0 are falsy.\<close>

definition float_or :: "real option \<Rightarrow> real \<Rightarrow> real" where
  "float_or x dflt = (case x of None \<Rightarrow> dflt | Some v \<Rightarrow> if v = 0 then dflt else v)"

text \<open>
  \<^verbatim>\<open>round(x, 3)\<close>: the nearest multiple of one thousandth, a tie going to the even one.
\<close>

definition round3 :: "real \<Rightarrow> real" where
  "round3 x =
     (let y = x * 1000; n = \<lfloor>y\<rfloor>; r = y - of_int n
      in of_int (if r < 1 / 2 then n else if 1 / 2 < r then n + 1
                 else if even n then n else n + 1) / 1000)"

text \<open>
  Building one SourceDocument. The constructor validates its arguments: the string
  fields take strings, the chunk index an integer, and the similarity score is declared
  with \<^verbatim>\<open>ge=0.0, le=1.0\<close>. \<open>None\<close> stands for the exception that
  \<^verbatim>\<open>_format_sources\<close> catches, skipping the chunk.
\<close>

definition source_of :: "services \<Rightarrow> chunk \<Rightarrow> SourceDocument option" where
  "source_of sv c =
     (case (c_date c, c_document_id c, c_chunk_index c) of
        (MStr d, MStr i, MInt n) \<Rightarrow>
          (let s = round3 (c_similarity_score c)
           in if 0 \<le> s \<and> s \<le> 1
              then Some \<lparr>sd_company = c_company c, sd_date = d,
                         sd_quarter = extract_quarter sv d, sd_chunk = c_content c,
                         sd_similarity_score = s, sd_document_id = i,
                         sd_chunk_index = Some n\<rparr>
              else None)
      | _ \<Rightarrow> None)"


definition format_sources :: "services \<Rightarrow> chunk list \<Rightarrow> SourceDocument list" where
  "format_sources sv chunks = List.map_filter (source_of sv) chunks"

definition known_companies :: "string list" where
  "known_companies =
     [''AAPL'', ''AMD'', ''AMZN'', ''ASML'', ''CSCO'', ''GOOGL'', ''INTC'', ''MSFT'', ''MU'', ''NVDA'']"

definition estimate_total_chunks_searched :: "services \<Rightarrow> string list option \<Rightarrow> nat" where
  "estimate_total_chunks_searched sv cf =
     (let companies = (case cf of None \<Rightarrow> known_companies
                       | Some cs \<Rightarrow> if cs = [] then known_companies else cs)
      in sum_list (map (chunk_count sv) companies))"

definition apology :: string where
  "apology = ''I apologize, but I couldn't generate a response to your question. Please try rephrasing your question or check if the system is properly configured.''"

text \<open>The response of the \<^verbatim>\<open>except\<close> branch of process\_query.\<close>

definition error_response :: "Settings \<Rightarrow> pystr \<Rightarrow> real \<Rightarrow> int \<Rightarrow> exn \<Rightarrow> QueryResponse" where
  "error_response st q thr m e =
     \<lparr>query = q,
      answer = ''An error occurred while processing your query: '' @ str_of_exn e,
      sources = [],
      metadata = \<lparr>total_chunks_searched = 0, model_used = EMBEDDING_MODEL st,
                  llm_model = ''gemini-pro'',
                  md_similarity_threshold = (if thr = 0 then 7 / 10 else thr),
                  md_max_results = m\<rparr>\<rparr>"

definition request_company_filter :: "QueryRequest \<Rightarrow> string list option" where
  "request_company_filter req =
     (case company_filter req of None \<Rightarrow> None
      | Some cs \<Rightarrow> if cs = [] then None else Some (map symbol_value cs))"

definition request_date_filter :: "QueryRequest \<Rightarrow> date_filter option" where
  "request_date_filter req =
     (case date_range req of None \<Rightarrow> None
      | Some dr \<Rightarrow>
          Some \<lparr>df_start = (case dr_start dr of None \<Rightarrow> None
                             | Some s \<Rightarrow> if s = [] then None else Some s),
                df_end = (case dr_end dr of None \<Rightarrow> None
                           | Some s \<Rightarrow> if s = [] then None else Some s)\<rparr>)"

text \<open>
  process\_query returns the response together with the service calls it made. It never
  raises: the \<^verbatim>\<open>except\<close> branch turns an exception of a service into a response.
\<close>

definition process_query :: "services \<Rightarrow> Settings \<Rightarrow> QueryRequest \<Rightarrow> QueryResponse \<times> call list" where
  "process_query sv st req =
     (let q = question req;
          cf = request_company_filter req;
          m = max_results req;
          thr = float_or (similarity_threshold req) (SIMILARITY_THRESHOLD st);
          temp = float_or (temperature req) (TEMPERATURE st);
          df = request_date_filter req;
          retrieval = Search q cf m thr df
      in case search_call sv q cf m thr df of
           Inl e \<Rightarrow> (error_response st q thr m e, [retrieval])
         | Inr similar_chunks \<Rightarrow>
             (let generation = Generate q similar_chunks temp
              in case generate_call sv q similar_chunks temp of
                   Inl e \<Rightarrow> (error_response st q thr m e, [retrieval, generation])
                 | Inr generated \<Rightarrow>
                     (\<lparr>query = q,
                       answer = (case generated of None \<Rightarrow> apology
                                 | Some a \<Rightarrow> if a = [] then apology else a),
                       sources = format_sources sv similar_chunks,
                       metadata = \<lparr>total_chunks_searched = estimate_total_chunks_searched sv cf,
                                   model_used = EMBEDDING_MODEL st,
                                   llm_model = ''gemini-pro'',
                                   md_similarity_threshold = thr,
                                   md_max_results = m\<rparr>\<rparr>,
                      [retrieval, generation])))"

section \<open>Similarity search (services/chroma\_service.py)\<close>

text \<open>
  The vector store and the embedding model are external services. The search reaches them
  through three calls, which are parameters here: encoding the query text, getting (or
  creating) a collection by name and counting it, and querying that collection with a query
  embedding, the number of results wanted and a where-clause. A call that raises returns
  \<open>Inl\<close>.
\<close>

type_synonym embedding = "real list"

text \<open>
  The where-clause the search builds: \<^verbatim>\<open>{"company": c, "date": {"$gte": s, "$lte": e}}\<close>,
  the date bounds being optional.
\<close>

record where_clause =
  w_company :: string
  w_date_gte :: "string option"
  w_date_lte :: "string option"

text \<open>What a collection query returns for the one query embedding sent.\<close>

record query_result =
  documents :: "pystr list"
  metadatas :: "metadata list"
  distances :: "real list"

record store =
  encode_single_text :: "pystr \<Rightarrow> exn + embedding"
  collection_count :: "string \<Rightarrow> exn + nat"
  collection_query :: "string \<Rightarrow> embedding \<Rightarrow> int \<Rightarrow> where_clause \<Rightarrow> exn + query_result"

text \<open>\<^verbatim>\<open>str.lower()\<close>, on the ASCII letters company symbols are made of.\<close>

definition char_lower :: "char \<Rightarrow> char" where
  "char_lower c =
     (let n = (of_char c :: nat) in if 65 \<le> n \<and> n \<le> 90 then char_of (n + 32) else c)"

definition get_collection_name :: "string \<Rightarrow> string" where
  "get_collection_name company = ''transcripts_'' @ map char_lower company"

text \<open>A dictionary value is truthy unless it is missing or the empty string.\<close>

definition truthy :: "string option \<Rightarrow> string option" where
  "truthy v = (case v of None \<Rightarrow> None | Some s \<Rightarrow> if s = [] then None else Some s)"

definition build_where :: "string \<Rightarrow> date_filter option \<Rightarrow> where_clause" where
  "build_where company df =
     (case df of
        None \<Rightarrow> \<lparr>w_company = company, w_date_gte = None, w_date_lte = None\<rparr>
      | Some f \<Rightarrow>
          if df_start f = None \<and> df_end f = None
          then \<lparr>w_company = company, w_date_gte = None, w_date_lte = None\<rparr>
          else \<lparr>w_company = company, w_date_gte = truthy (df_start f),
                w_date_lte = truthy (df_end f)\<rparr>)"

definition make_result :: "string \<Rightarrow> pystr \<Rightarrow> metadata \<Rightarrow> real \<Rightarrow> chunk" where
  "make_result company doc meta distance =
     \<lparr>c_company = company,
      c_document_id = dict_get meta ''document_id'' (MStr []),
      c_chunk_index = dict_get meta ''chunk_index'' (MInt 0),
      c_date = dict_get meta ''date'' (MStr []),
      c_quarter = dict_get meta ''quarter'' (MStr []),
      c_content = doc,
      c_similarity_score = 1 - distance,
      c_metadata = meta\<rparr>"

text \<open>
  The body of the loop over companies: the results one company contributes. An exception
  of the store is caught per company and contributes nothing.
\<close>

definition search_company ::
  "store \<Rightarrow> embedding \<Rightarrow> int \<Rightarrow> real \<Rightarrow> date_filter option \<Rightarrow> string \<Rightarrow> chunk list" where
  "search_company st query_embedding max_res threshold df company =
     (let collection_name = get_collection_name company
      in case collection_count st collection_name of
           Inl e \<Rightarrow> []
         | Inr n \<Rightarrow>
             if n = 0 then []
             else case collection_query st collection_name query_embedding
                         (min (max_res * 2) 50) (build_where company df) of
                    Inl e \<Rightarrow> []
                  | Inr results \<Rightarrow>
                      if documents results = [] then []
                      else map (\<lambda>(doc, meta, distance). make_result company doc meta distance)
                             (filter (\<lambda>(doc, meta, distance). threshold \<le> 1 - distance)
                                (zip (documents results)
                                   (zip (metadatas results) (distances results)))))"

text \<open>\<^verbatim>\<open>company_filter or list(self.company_names.keys())\<close>: None and [] are falsy.\<close>

definition companies_to_search :: "string list option \<Rightarrow> string list" where
  "companies_to_search cf =
     (case cf of None \<Rightarrow> known_companies | Some cs \<Rightarrow> if cs = [] then known_companies else cs)"

text \<open>\<^verbatim>\<open>xs.sort(key=f, reverse=True)\<close>: descending and stable.\<close>

definition sort_descending :: "('a \<Rightarrow> real) \<Rightarrow> 'a list \<Rightarrow> 'a list" where
  "sort_descending f xs = rev (sort_key f (rev xs))"

text \<open>\<^verbatim>\<open>xs[:n]\<close>: a negative n counts from the end.\<close>

definition slice_to :: "int \<Rightarrow> 'a list \<Rightarrow> 'a list" where
  "slice_to n xs = take (nat (if n < 0 then int (length xs) + n else n)) xs"

definition search_similar_chunks ::
  "store \<Rightarrow> pystr \<Rightarrow> string list option \<Rightarrow> int \<Rightarrow> real \<Rightarrow> date_filter option \<Rightarrow> chunk list" where
  "search_similar_chunks st query_text cf max_res threshold df =
     (case encode_single_text st query_text of
        Inl e \<Rightarrow> []
      | Inr query_embedding \<Rightarrow>
          (let all_results =
                 concat (map (search_company st query_embedding max_res threshold df)
                           (companies_to_search cf))
           in slice_to max_res (sort_descending c_similarity_score all_results)))"

section \<open>Cosine similarity (services/embedding\_service.py)\<close>

definition vec_norm :: "embedding \<Rightarrow> real" where
  "vec_norm v = sqrt (sum_list (map (\<lambda>x. x * x) v))"

definition vec_dot :: "embedding \<Rightarrow> embedding \<Rightarrow> real" where
  "vec_dot u v = sum_list (map2 (*) u v)"

text \<open>
  compute\_similarity; \<^verbatim>\<open>np.dot\<close> raises on vectors of different length, and the
  exception handler returns 0.0.
\<close>

definition compute_similarity :: "embedding \<Rightarrow> embedding \<Rightarrow> real" where
  "compute_similarity embedding1 embedding2 =
     (let norm1 = vec_norm embedding1; norm2 = vec_norm embedding2
      in if norm1 = 0 \<or> norm2 = 0 then 0
         else if length embedding1 \<noteq> length embedding2 then 0
         else vec_dot embedding1 embedding2 / (norm1 * norm2))"

text \<open>
  Squared Euclidean distance: the metric of a collection created without a
  \<^verbatim>\<open>hnsw:space\<close> entry in its metadata, as core/database.py creates every collection.
\<close>

definition l2_squared :: "embedding \<Rightarrow> embedding \<Rightarrow> real" where
  "l2_squared u v = sum_list (map2 (\<lambda>a b. (a - b) * (a - b)) u v)"

section \<open>Query endpoint (api/query.py)\<close>




section \<open>Embedding endpoint (api/embeddings.py)\<close>

text \<open>The module-level status dictionary; its seven keys never change.\<close>

record embedding_status =
  status :: string
  progress :: real
  total_documents :: int
  processed_documents :: int
  current_company :: "string option"
  estimated_time_remaining :: "string option"
  error :: "string option"


record EmbeddingRequest =
  force_recreate :: bool
  companies :: "CompanySymbol list option"
  batch_size :: int




section \<open>Chunking (api/embeddings.py)\<close>

text \<open>The characters of the pattern \<^verbatim>\<open>[.!?]+\<close>.\<close>

definition is_punct :: "nat \<Rightarrow> bool" where
  "is_punct c \<longleftrightarrow> c = 46 \<or> c = 33 \<or> c = 63"

text \<open>
  \<^verbatim>\<open>re.split(r'[.!?]+', text)\<close>: the text before the first run of punctuation, then
  the split of what follows that run. A text that ends in punctuation ends with an empty
  piece.
\<close>

function re_split :: "pystr \<Rightarrow> pystr list" where
  "re_split s =
     (let piece = takeWhile (\<lambda>c. \<not> is_punct c) s;
          rest = dropWhile (\<lambda>c. \<not> is_punct c) s
      in if rest = [] then [piece] else piece # re_split (dropWhile is_punct rest))"
  by pat_completeness auto
termination
proof (relation "measure length")
  fix s :: pystr and piece rest
  assume rest: "rest = dropWhile (\<lambda>c. \<not> is_punct c) s" and ne: "rest \<noteq> []"
  from ne rest have "is_punct (hd rest)"
    using hd_dropWhile [of "\<lambda>c. \<not> is_punct c" s] by simp
  with ne have "length (dropWhile is_punct rest) < length rest"
    by (cases rest) (simp_all add: le_imp_less_Suc length_dropWhile_le)
  also have "length rest \<le> length s"
    unfolding rest by (rule length_dropWhile_le)
  finally show "(dropWhile is_punct rest, s) \<in> measure length" by simp
qed simp

declare re_split.simps [simp del]

text \<open>
  The loop over the sentences, with the list of finished chunks and the current chunk as
  its state.
\<close>

fun pack :: "int \<Rightarrow> pystr list \<Rightarrow> pystr list \<Rightarrow> pystr \<Rightarrow> pystr list \<times> pystr" where
  "pack max_chunk_size [] chunks current_chunk = (chunks, current_chunk)"
| "pack max_chunk_size (sentence # sentences) chunks current_chunk =
     (let sentence = strip sentence
      in if sentence = [] then pack max_chunk_size sentences chunks current_chunk
         else if max_chunk_size < int (length current_chunk) + int (length sentence)
                 \<and> current_chunk \<noteq> []
         then pack max_chunk_size sentences (chunks @ [strip current_chunk]) sentence
         else pack max_chunk_size sentences chunks
                (if current_chunk \<noteq> [] then current_chunk @ [32] @ sentence else sentence))"

definition split_into_chunks :: "pystr \<Rightarrow> int \<Rightarrow> pystr list" where
  "split_into_chunks text max_chunk_size =
     (case pack max_chunk_size (re_split text) [] [] of
        (chunks, current_chunk) \<Rightarrow>
          if strip current_chunk \<noteq> [] then chunks @ [strip current_chunk] else chunks)"





definition trimmed :: "pystr \<Rightarrow> bool" where
  "trimmed t \<longleftrightarrow> t \<noteq> [] \<and> \<not> is_space (hd t) \<and> \<not> is_space (last t)"



section \<open>Embedding service and its cache (services/embedding\_service.py)\<close>

text \<open>
  The sentence-transformer model is external: loading it and encoding a batch of texts is
  the parameter \<open>model_encode\<close>, which may raise. encode\_texts returns an empty array
  for an empty list without touching the model.
\<close>

definition encode_texts :: "(pystr list \<Rightarrow> exn + embedding list) \<Rightarrow> pystr list \<Rightarrow> exn + embedding list" where
  "encode_texts model_encode texts = (if texts = [] then Inr [] else model_encode texts)"

text \<open>
  The cache key is \<^verbatim>\<open>hashlib.md5(text.encode()).hexdigest()\<close>. The digest function
  (UTF-8 encoding followed by MD5, a 128-bit value) is a parameter; the hexadecimal
  rendering of the digest, 32 lower-case digits with the highest first, is written out.
\<close>

type_synonym digest = "128 word"

definition hex_digit :: "nat \<Rightarrow> char" where
  "hex_digit n = ''0123456789abcdef'' ! n"

definition nibble :: "digest \<Rightarrow> nat \<Rightarrow> nat" where
  "nibble d i = unat (take_bit 4 (drop_bit (4 * i) d))"

definition hexdigest :: "digest \<Rightarrow> string" where
  "hexdigest d = map (\<lambda>i. hex_digit (nibble d (31 - i))) [0..<32]"

definition get_cache_key :: "(pystr \<Rightarrow> digest) \<Rightarrow> pystr \<Rightarrow> string" where
  "get_cache_key md5 text = hexdigest (md5 text)"

text \<open>The fields of the service the cache uses.\<close>

record EmbeddingService =
  cache_dir :: string
  model_name :: string

definition get_cache_path :: "EmbeddingService \<Rightarrow> string \<Rightarrow> string" where
  "get_cache_path svc cache_key = cache_dir svc @ ''/'' @ cache_key @ ''.pkl''"

text \<open>The pickled dictionary of a cache file, and the files of the cache directory by path.\<close>

record cache_entry =
  ce_text :: pystr
  ce_embedding :: embedding
  ce_model :: string

type_synonym files = "string \<rightharpoonup> cache_entry"

definition save_embedding_to_cache ::
  "(pystr \<Rightarrow> digest) \<Rightarrow> EmbeddingService \<Rightarrow> files \<Rightarrow> pystr \<Rightarrow> embedding \<Rightarrow> files" where
  "save_embedding_to_cache md5 svc fs text embedding =
     (let cache_key = get_cache_key md5 text;
          cache_path = get_cache_path svc cache_key
      in fs(cache_path \<mapsto> \<lparr>ce_text = text, ce_embedding = embedding, ce_model = model_name svc\<rparr>))"

definition load_embedding_from_cache ::
  "(pystr \<Rightarrow> digest) \<Rightarrow> EmbeddingService \<Rightarrow> files \<Rightarrow> pystr \<Rightarrow> embedding option" where
  "load_embedding_from_cache md5 svc fs text =
     (let cache_key = get_cache_key md5 text;
          cache_path = get_cache_path svc cache_key
      in case fs cache_path of
           None \<Rightarrow> None
         | Some data \<Rightarrow> if ce_model data \<noteq> model_name svc then None else Some (ce_embedding data))"

text \<open>
  encode\_with\_cache returns the list of embeddings (an entry stays None when the encoder
  returned too few rows), the cache files afterwards, and the batches it handed to the
  encoder. The first loop looks every text up; the second stores the fresh embeddings under
  the indices that missed.
\<close>

definition encode_with_cache ::
  "(pystr \<Rightarrow> digest) \<Rightarrow> (pystr list \<Rightarrow> exn + embedding list) \<Rightarrow> EmbeddingService \<Rightarrow> files \<Rightarrow>
   pystr list \<Rightarrow> bool \<Rightarrow> (exn + embedding option list) \<times> files \<times> pystr list list" where
  "encode_with_cache md5 model_encode svc fs texts use_cache =
     (if \<not> use_cache
      then (map_sum id (map Some) (encode_texts model_encode texts), fs,
            if texts = [] then [] else [texts])
      else
        (let embeddings = map (load_embedding_from_cache md5 svc fs) texts;
             indices_to_encode = filter (\<lambda>i. embeddings ! i = None) [0..<length texts];
             texts_to_encode = map (\<lambda>i. texts ! i) indices_to_encode
         in if texts_to_encode = [] then (Inr embeddings, fs, [])
            else case encode_texts model_encode texts_to_encode of
                   Inl e \<Rightarrow> (Inl e, fs, [texts_to_encode])
                 | Inr new_embeddings \<Rightarrow>
                     (case fold (\<lambda>(i, text, embedding) (fs', embs).
                                   (save_embedding_to_cache md5 svc fs' text embedding,
                                    embs[indices_to_encode ! i := Some embedding]))
                             (enumerate 0 (zip texts_to_encode new_embeddings))
                             (fs, embeddings) of
                        (fs', embs) \<Rightarrow> (Inr embs, fs', [texts_to_encode]))))"

section \<open>Storing and reading back a document (services/chroma\_service.py)\<close>












section \<open>Fixtures for the worked examples\<close>

definition quiet_services :: services where
  "quiet_services =
     \<lparr>search_call = (\<lambda>q cf m thr df. Inr []),
      generate_call = (\<lambda>q cs t. Inr None),
      extract_quarter = (\<lambda>d. None),
      chunk_count = (\<lambda>c. 0)\<rparr>"

definition zero_request :: QueryRequest where
  "zero_request =
     \<lparr>question = [104, 105], company_filter = None, date_range = None, max_results = 5,
      similarity_threshold = Some 0, temperature = Some 0\<rparr>"

definition example_meta :: metadata where
  "example_meta =
     [''document_id'' \<mapsto> MStr ''aapl_2020-Apr-30'', ''chunk_index'' \<mapsto> MInt 0,
      ''date'' \<mapsto> MStr ''2020-Apr-30'', ''company'' \<mapsto> MStr ''AAPL'']"

text \<open>
  A store holding one chunk with the unit-norm embedding (4/5, 3/5). Every query text is
  embedded as the unit vector (1, 0), and the store reports the squared Euclidean distance.
\<close>

definition example_store :: store where
  "example_store =
     \<lparr>encode_single_text = (\<lambda>q. Inr [1, 0]),
      collection_count = (\<lambda>name. Inr 1),
      collection_query = (\<lambda>name qe n w.
         Inr \<lparr>documents = [[104, 105]], metadatas = [example_meta],
              distances = [l2_squared qe [4 / 5, 3 / 5]]\<rparr>)\<rparr>"








definition example_service :: EmbeddingService where
  "example_service = \<lparr>cache_dir = ''./data/embeddings'', model_name = ''all-MiniLM-L6-v2''\<rparr>"

text \<open>A stand-in for the digest function in the worked examples.\<close>

definition toy_digest :: "pystr \<Rightarrow> digest" where
  "toy_digest t = of_nat (sum_list t)"

definition toy_embed :: "pystr \<Rightarrow> embedding" where
  "toy_embed t = [real (length t), 1]"


section \<open>Properties of the pipeline\<close>

text \<open>
  C9. The threshold handed to retrieval is the request's similarity\_threshold unless that
  is None or 0.0, in which case it is the configured SIMILARITY\_THRESHOLD (0.7 by default);
  the temperature handed to generation is the request's temperature unless that is None or
  0.0, in which case it is the configured TEMPERATURE (0.7 by default). A requested 0.0 is
  therefore replaced by the default. Every run starts with the retrieval call.
\<close>

theorem effective_threshold_and_temperature:
  "(\<exists>q cf m df rest.
      snd (process_query sv st req) =
        Search q cf m (if similarity_threshold req = None \<or> similarity_threshold req = Some 0
                       then SIMILARITY_THRESHOLD st else the (similarity_threshold req)) df # rest) \<and>
   (\<forall>ev \<in> set (snd (process_query sv st req)).
      (\<forall>q cf m t df. ev = Search q cf m t df \<longrightarrow>
         t = (if similarity_threshold req = None \<or> similarity_threshold req = Some 0
              then SIMILARITY_THRESHOLD st else the (similarity_threshold req))) \<and>
      (\<forall>q cs t. ev = Generate q cs t \<longrightarrow>
         t = (if temperature req = None \<or> temperature req = Some 0
              then TEMPERATURE st else the (temperature req)))) \<and>
   SIMILARITY_THRESHOLD default_settings = 7 / 10 \<and> TEMPERATURE default_settings = 7 / 10"
  by (auto simp: process_query_def Let_def float_or_def default_settings_def
           split: sum.splits option.splits)

theorem effective_threshold_and_temperature_witness:
  "snd (process_query quiet_services default_settings zero_request) =
     [Search [104, 105] None 5 (7 / 10) None, Generate [104, 105] [] (7 / 10)] \<and>
   similarity_threshold zero_request = Some 0 \<and> temperature zero_request = Some 0"
  using effective_threshold_and_temperature [of quiet_services default_settings zero_request]
  by (simp add: process_query_def Let_def float_or_def default_settings_def
        quiet_services_def zero_request_def request_company_filter_def request_date_filter_def)

section \<open>Properties of the similarity search\<close>










lemma example_company:
  "search_company example_store [1, 0] 5 (1 / 2) None ''AAPL'' =
     [make_result ''AAPL'' [104, 105] example_meta (2 / 5)]"
  by (simp add: search_company_def example_store_def Let_def l2_squared_def)

lemma example_encode: "encode_single_text example_store q = Inr [1, 0]"
  by (simp add: example_store_def)

lemma example_search:
  "search_similar_chunks example_store [113] (Some [''AAPL'']) 5 (1 / 2) None =
     [make_result ''AAPL'' [104, 105] example_meta (2 / 5)]"
  by (simp add: search_similar_chunks_def example_encode companies_to_search_def
      example_company sort_descending_def slice_to_def)


lemma unit_norm: "vec_norm [1, 0] = 1" "vec_norm [4 / 5, 3 / 5] = 1"
  by (simp_all add: vec_norm_def)

text \<open>
  On unit vectors of equal length, one minus the squared Euclidean distance is twice the
  cosine similarity minus one; it is the cosine similarity only where that is 1.
\<close>

lemma one_minus_l2_squared:
  assumes "length u = length v" "vec_norm u = 1" "vec_norm v = 1"
  shows "1 - l2_squared u v = 2 * compute_similarity u v - 1"
proof -
  have expand: "l2_squared u v =
      sum_list (map (\<lambda>x. x * x) u) + sum_list (map (\<lambda>x. x * x) v) - 2 * vec_dot u v"
    using assms(1)
    by (induction u v rule: list_induct2) (simp_all add: l2_squared_def vec_dot_def algebra_simps)
  have "sum_list (map (\<lambda>x. x * x) u) = 1" "sum_list (map (\<lambda>x. x * x) v) = 1"
    using assms(2,3) by (simp_all add: vec_norm_def)
  with expand assms show ?thesis by (simp add: compute_similarity_def)
qed

text \<open>
  C2. The reported similarity\_score is one minus the distance the store reports. Collections
  are created without a metric, so the store reports the squared Euclidean distance. For
  the query embedding (1, 0) and the stored embedding (4/5, 3/5), both of norm one, the
  chunk is returned at threshold 1/2 with the score 3/5, while the cosine similarity of the
  two embeddings is 4/5.
\<close>

theorem reported_score_under_default_metric:
  "map c_similarity_score
     (search_similar_chunks example_store [113] (Some [''AAPL'']) 5 (1 / 2) None) = [3 / 5] \<and>
   compute_similarity [1, 0] [4 / 5, 3 / 5] = 4 / 5"
  by (simp add: example_search make_result_def compute_similarity_def unit_norm vec_dot_def)

section \<open>Properties of the response\<close>









section \<open>Properties of the endpoints\<close>






section \<open>Properties of the chunker\<close>



lemma strip_Nil [simp]: "strip [] = []"
  by (simp add: strip_def)

lemma trimmed_join: "trimmed a \<Longrightarrow> trimmed b \<Longrightarrow> trimmed (a @ [32] @ b)"
  by (simp add: trimmed_def)











lemma re_split_last:
  "dropWhile (\<lambda>c. \<not> is_punct c) s = [] \<Longrightarrow> re_split s = [takeWhile (\<lambda>c. \<not> is_punct c) s]"
  by (subst re_split.simps) (simp add: Let_def)

lemma re_split_next:
  assumes "dropWhile (\<lambda>c. \<not> is_punct c) s \<noteq> []"
  shows "re_split s = takeWhile (\<lambda>c. \<not> is_punct c) s #
                re_split (dropWhile is_punct (dropWhile (\<lambda>c. \<not> is_punct c) s))"
proof -
  have "re_split s =
     (let piece = takeWhile (\<lambda>c. \<not> is_punct c) s;
          rest = dropWhile (\<lambda>c. \<not> is_punct c) s
      in if rest = [] then [piece] else piece # re_split (dropWhile is_punct rest))"
    by (rule re_split.simps)
  with assms show ?thesis by (simp only: Let_def if_False)
qed



text \<open>
  The size check adds the lengths of the current chunk and of the sentence, not the space
  that joins them: "abc. de" with max\_chunk\_size 5 gives the chunk "abc de" of 6 characters.
\<close>

lemma separator_not_counted:
  "split_into_chunks [97, 98, 99, 46, 32, 100, 101] 5 = [[97, 98, 99, 32, 100, 101]]"
  by (simp add: split_into_chunks_def re_split_last re_split_next is_punct_def strip_def
        is_space_def Let_def)


section \<open>Properties of the embedding cache\<close>

lemma hex_digit_inj: "i < 16 \<Longrightarrow> j < 16 \<Longrightarrow> hex_digit i = hex_digit j \<Longrightarrow> i = j"
proof -
  have d: "distinct ''0123456789abcdef''" by simp
  assume "i < 16" "j < 16" "hex_digit i = hex_digit j"
  then show "i = j"
    unfolding hex_digit_def using d by (simp add: nth_eq_iff_index_eq)
qed

lemma nibble_less: "nibble d i < 16"
proof -
  have "nibble d i = take_bit 4 (unat (drop_bit (4 * i) d))"
    by (simp add: nibble_def unsigned_take_bit_eq)
  also have "\<dots> < 2 ^ 4" by (rule take_bit_nat_less_exp)
  finally show ?thesis by simp
qed

lemma nibbles_determine:
  assumes "\<forall>i < 32. nibble a i = nibble b i"
  shows "a = b"
proof (rule bit_word_eqI)
  fix n assume "n < LENGTH(128)"
  then have n: "n < 128" by simp
  let ?i = "n div 4" and ?j = "n mod 4"
  from n have i: "?i < 32" by simp
  with assms have "nibble a ?i = nibble b ?i" by simp
  then have "take_bit 4 (drop_bit (4 * ?i) a) = take_bit 4 (drop_bit (4 * ?i) b)"
    unfolding nibble_def by (simp only: word_unat_eq_iff)
  then have "bit (take_bit 4 (drop_bit (4 * ?i) a)) ?j = bit (take_bit 4 (drop_bit (4 * ?i) b)) ?j"
    by simp
  then have "bit a (4 * ?i + ?j) = bit b (4 * ?i + ?j)"
    by (simp add: bit_take_bit_iff bit_drop_bit_eq)
  then show "bit a n = bit b n" by simp
qed

lemma hexdigest_inj: "hexdigest a = hexdigest b \<Longrightarrow> a = b"
proof (rule nibbles_determine, intro allI impI)
  fix i :: nat assume h: "hexdigest a = hexdigest b" and i: "i < 32"
  from h have "\<forall>k \<in> set [0..<32]. hex_digit (nibble a (31 - k)) = hex_digit (nibble b (31 - k))"
    unfolding hexdigest_def by (simp only: map_eq_conv)
  moreover from i have "31 - i \<in> set [0..<32]" by simp
  ultimately have "hex_digit (nibble a (31 - (31 - i))) = hex_digit (nibble b (31 - (31 - i)))"
    by blast
  with i have "hex_digit (nibble a i) = hex_digit (nibble b i)" by simp
  then show "nibble a i = nibble b i"
    using hex_digit_inj nibble_less by blast
qed

lemma cache_path_inj:
  "get_cache_path svc (get_cache_key md5 t) = get_cache_path svc (get_cache_key md5 t') \<longleftrightarrow>
   md5 t = md5 t'"
  by (auto simp: get_cache_path_def get_cache_key_def dest: hexdigest_inj)



lemma load_after_save:
  "load_embedding_from_cache md5 svc (save_embedding_to_cache md5 svc fs text e) text = Some e"
  by (simp add: load_embedding_from_cache_def save_embedding_to_cache_def Let_def)

lemma load_other_digest:
  "md5 t \<noteq> md5 text \<Longrightarrow>
   load_embedding_from_cache md5 svc (save_embedding_to_cache md5 svc fs t e) text =
   load_embedding_from_cache md5 svc fs text"
  by (simp add: load_embedding_from_cache_def save_embedding_to_cache_def Let_def cache_path_inj)






section \<open>Properties of cached encoding\<close>

lemma nth_filtered_indices:
  "map (\<lambda>i. xs ! i) (filter (\<lambda>i. map L xs ! i = None) [0..<length xs]) = filter (\<lambda>t. L t = None) xs"
proof -
  have "filter (\<lambda>t. L t = None) xs = filter (\<lambda>t. L t = None) (map (\<lambda>i. xs ! i) [0..<length xs])"
    by (simp add: map_nth)
  also have "\<dots> = map (\<lambda>i. xs ! i) (filter (\<lambda>i. L (xs ! i) = None) [0..<length xs])"
    by (simp add: filter_map comp_def)
  also have "filter (\<lambda>i. L (xs ! i) = None) [0..<length xs] =
      filter (\<lambda>i. map L xs ! i = None) [0..<length xs]"
    by (rule filter_cong) simp_all
  finally show ?thesis by simp
qed

lemma fold_updates:
  fixes step :: "nat \<times> pystr \<times> embedding \<Rightarrow> files \<times> embedding option list \<Rightarrow> files \<times> embedding option list"
  assumes step: "\<And>i t e fs embs. snd (step (i, t, e) (fs, embs)) = embs[idx ! i := Some e]"
    and len: "length ts = length idx" "length es = length idx"
    and es: "\<And>k. k < length idx \<Longrightarrow> es ! k = g (idx ! k)"
    and m: "m \<le> length idx"
  shows "snd (fold step (take m (enumerate 0 (zip ts es))) (fs, embs)) =
           map (\<lambda>j. if j \<in> set (take m idx) then Some (g j) else embs ! j) [0..<length embs]"
  using m
proof (induction m)
  case 0
  show ?case by (simp add: map_nth)
next
  case (Suc m)
  let ?L = "enumerate 0 (zip ts es)"
  from Suc.prems have m: "m < length idx" by simp
  with len have mL: "m < length ?L" by simp
  have x: "?L ! m = (m, ts ! m, es ! m)" using m len by (simp add: nth_enumerate_eq)
  obtain F E where FE: "fold step (take m ?L) (fs, embs) = (F, E)" by (cases "fold step (take m ?L) (fs, embs)")
  from Suc.IH m FE have E: "E = map (\<lambda>j. if j \<in> set (take m idx) then Some (g j) else embs ! j) [0..<length embs]"
    by simp
  have "snd (fold step (take (Suc m) ?L) (fs, embs)) = snd (step (?L ! m) (F, E))"
    using mL FE by (simp add: take_Suc_conv_app_nth)
  also have "\<dots> = E[idx ! m := Some (g (idx ! m))]"
    using x step es [OF m] by simp
  also have "\<dots> = map (\<lambda>j. if j \<in> set (take (Suc m) idx) then Some (g j) else embs ! j) [0..<length embs]"
  proof (intro nth_equalityI)
    show "length (E[idx ! m := Some (g (idx ! m))]) =
      length (map (\<lambda>j. if j \<in> set (take (Suc m) idx) then Some (g j) else embs ! j) [0..<length embs])"
      by (simp add: E)
  next
    fix j assume "j < length (E[idx ! m := Some (g (idx ! m))])"
    then have j: "j < length embs" by (simp add: E)
    show "E[idx ! m := Some (g (idx ! m))] ! j =
      map (\<lambda>j. if j \<in> set (take (Suc m) idx) then Some (g j) else embs ! j) [0..<length embs] ! j"
    proof (cases "j = idx ! m")
      case True
      with j m show ?thesis by (simp add: E take_Suc_conv_app_nth)
    next
      case False
      with j m show ?thesis by (simp add: E take_Suc_conv_app_nth)
    qed
  qed
  finally show ?case .
qed


text \<open>
  C8. Suppose the encoder embeds each text by itself (a batch yields the embeddings
  \<open>f t\<close> of its texts, in order) and every cache hit for a text \<open>t\<close> of the list is
  \<open>f t\<close>. Then encode\_with\_cache(texts, use\_cache=True) returns what encode\_texts(texts)
  returns, embedding by embedding in the same positions, and it invokes the encoder only on
  the texts that missed the cache: once, on the list of misses in their order, and not at
  all when nothing missed.
\<close>

theorem encode_with_cache_refines:
  assumes enc: "\<And>ts. ts \<noteq> [] \<Longrightarrow> set ts \<subseteq> set texts \<Longrightarrow> model_encode ts = Inr (map f ts)"
    and hits: "\<And>t e. t \<in> set texts \<Longrightarrow> load_embedding_from_cache md5 svc fs t = Some e \<Longrightarrow> e = f t"
  shows "fst (encode_with_cache md5 model_encode svc fs texts True) = Inr (map (\<lambda>t. Some (f t)) texts) \<and>
         encode_texts model_encode texts = Inr (map f texts) \<and>
         snd (snd (encode_with_cache md5 model_encode svc fs texts True)) =
           (if filter (\<lambda>t. load_embedding_from_cache md5 svc fs t = None) texts = [] then []
            else [filter (\<lambda>t. load_embedding_from_cache md5 svc fs t = None) texts])"
proof -
  let ?L = "load_embedding_from_cache md5 svc fs"
  let ?cached = "map ?L texts"
  let ?idx = "filter (\<lambda>i. ?cached ! i = None) [0..<length texts]"
  let ?tte = "map (\<lambda>i. texts ! i) ?idx"
  let ?misses = "filter (\<lambda>t. ?L t = None) texts"
  let ?step = "\<lambda>(i, text, embedding) (fs', embs).
                  (save_embedding_to_cache md5 svc fs' text embedding,
                   embs[?idx ! i := Some embedding])"
  have tte: "?tte = ?misses" by (rule nth_filtered_indices)
  have direct: "encode_texts model_encode texts = Inr (map f texts)"
    using enc [of texts] by (simp add: encode_texts_def)
  have hit: "?cached ! j = Some (f (texts ! j))" if "j < length texts" "j \<notin> set ?idx" for j
  proof -
    from that have "?L (texts ! j) \<noteq> None" by simp
    then obtain e where e: "?L (texts ! j) = Some e" by blast
    with hits [of "texts ! j" e] that(1) have "e = f (texts ! j)" by simp
    with e that(1) show ?thesis by simp
  qed
  show ?thesis
  proof (cases "?misses = []")
    case True
    then have none: "?idx = []" using tte by simp
    have "?cached = map (\<lambda>t. Some (f t)) texts"
    proof (intro nth_equalityI)
      fix j assume "j < length ?cached"
      then have j: "j < length texts" by simp
      with hit [OF j] none show "?cached ! j = map (\<lambda>t. Some (f t)) texts ! j" by simp
    qed simp
    with True tte direct show ?thesis
      by (simp add: encode_with_cache_def Let_def del: map_eq_conv)
  next
    case False
    with tte have ne: "?tte \<noteq> []" by simp
    have sub: "set ?tte \<subseteq> set texts" unfolding tte by auto
    from enc [OF ne sub] ne have new: "encode_texts model_encode ?tte = Inr (map f ?tte)"
      by (simp add: encode_texts_def)
    have stepf: "snd (?step (i, t, e) (fs', embs)) = embs[?idx ! i := Some e]" for i t e fs' embs
      by simp
    have upd: "snd (fold ?step (take (length ?idx) (enumerate 0 (zip ?tte (map f ?tte)))) (fs, ?cached)) =
        map (\<lambda>j. if j \<in> set (take (length ?idx) ?idx) then Some (f (texts ! j)) else ?cached ! j)
          [0..<length ?cached]"
      by (rule fold_updates [where g = "\<lambda>j. f (texts ! j)"]) (simp_all add: stepf)
    have all: "take (length ?idx) (enumerate 0 (zip ?tte (map f ?tte))) = enumerate 0 (zip ?tte (map f ?tte))"
      by simp
    have res: "snd (fold ?step (enumerate 0 (zip ?tte (map f ?tte))) (fs, ?cached)) =
        map (\<lambda>t. Some (f t)) texts"
    proof -
      have "map (\<lambda>j. if j \<in> set (take (length ?idx) ?idx) then Some (f (texts ! j)) else ?cached ! j)
          [0..<length ?cached] = map (\<lambda>t. Some (f t)) texts"
      proof (intro nth_equalityI)
        fix j assume "j < length (map (\<lambda>j. if j \<in> set (take (length ?idx) ?idx)
            then Some (f (texts ! j)) else ?cached ! j) [0..<length ?cached])"
        then have j: "j < length texts" by simp
        show "map (\<lambda>j. if j \<in> set (take (length ?idx) ?idx) then Some (f (texts ! j)) else ?cached ! j)
          [0..<length ?cached] ! j = map (\<lambda>t. Some (f t)) texts ! j"
        proof (cases "j \<in> set ?idx")
          case True
          with j show ?thesis by simp
        next
          case False
          with j hit [OF j False] show ?thesis by simp
        qed
      qed simp
      with upd all show ?thesis by (simp only:)
    qed
    obtain F E where FE: "fold ?step (enumerate 0 (zip ?tte (map f ?tte))) (fs, ?cached) = (F, E)"
      by (cases "fold ?step (enumerate 0 (zip ?tte (map f ?tte))) (fs, ?cached)")
    with res have E: "E = map (\<lambda>t. Some (f t)) texts" by simp
    have "encode_with_cache md5 model_encode svc fs texts True = (Inr E, F, [?tte])"
      using ne new FE by (simp add: encode_with_cache_def Let_def del: map_eq_conv)
    with E tte False direct show ?thesis by (simp del: map_eq_conv)
  qed
qed


theorem encode_with_cache_refines_witness:
  "fst (encode_with_cache toy_digest (\<lambda>ts. Inr (map toy_embed ts)) example_service
          (save_embedding_to_cache toy_digest example_service Map.empty [105] (toy_embed [105]))
          [[104], [105]] True) =
     Inr [Some (toy_embed [104]), Some (toy_embed [105])] \<and>
   snd (snd (encode_with_cache toy_digest (\<lambda>ts. Inr (map toy_embed ts)) example_service
          (save_embedding_to_cache toy_digest example_service Map.empty [105] (toy_embed [105]))
          [[104], [105]] True)) = [[[104]]] \<and>
   load_embedding_from_cache toy_digest example_service
     (save_embedding_to_cache toy_digest example_service Map.empty [105] (toy_embed [105])) [105] =
     Some (toy_embed [105]) \<and>
   load_embedding_from_cache toy_digest example_service
     (save_embedding_to_cache toy_digest example_service Map.empty [105] (toy_embed [105])) [104] =
     None"
proof -
  let ?fs = "save_embedding_to_cache toy_digest example_service Map.empty [105] (toy_embed [105])"
  have "toy_digest [105] \<noteq> toy_digest [104]" by (simp add: toy_digest_def)
  then have l104: "load_embedding_from_cache toy_digest example_service ?fs [104] = None"
    by (simp add: load_other_digest) (simp add: load_embedding_from_cache_def Let_def)
  have l105: "load_embedding_from_cache toy_digest example_service ?fs [105] = Some (toy_embed [105])"
    by (rule load_after_save)
  have hits: "e = toy_embed t"
    if "t \<in> set [[104], [105]]" "load_embedding_from_cache toy_digest example_service ?fs t = Some e"
    for t e
    using that l104 l105 by auto
  have enc: "(\<lambda>ts. Inr (map toy_embed ts)) ts = (Inr (map toy_embed ts) :: exn + embedding list)"
    for ts :: "pystr list" by simp
  from encode_with_cache_refines [of "[[104], [105]]" "\<lambda>ts. Inr (map toy_embed ts)" toy_embed
      toy_digest example_service ?fs, OF enc hits] l104 l105
  show ?thesis by simp
qed

section \<open>Properties of storing and reading back\<close>









end
